theory Spec2Isabelle
  imports Main "HOL-Library.Word"
begin

section \<open>Go values as the reflect package sees them\<close>

text \<open>
  The helper of \<^verbatim>\<open>crud_helper.go\<close> is generic over a model type, a struct that is only
  touched through reflection and the JSON codec. A value of the model type is a record
  with the field \<open>ID\<close> the helper writes, and \<open>Fields\<close> for everything else the struct
  holds (for \<^verbatim>\<open>Item\<close> of \<^verbatim>\<open>main.go\<close>: the title and the done flag).

  Go's \<^verbatim>\<open>int\<close> is taken at its 64-bit width: \<open>+\<close> wraps around and \<open>sint\<close> reads the
  signed value.
\<close>

type_synonym go_int = "64 word"

record 'f Item =
  ID :: go_int
  Fields :: 'f

text \<open>
  The dynamic types that occur: the model type itself (\<open>Struct\<close>), pointers and slices.
  An \<^verbatim>\<open>interface{}\<close> holds a value together with its dynamic type; \<open>TypeOf\<close> reads it.
  A pointer is an address in a memory of variables, and it carries the type of the
  variable it points to. A slice is nil or a sequence of elements.
\<close>

datatype rtype = Struct | Ptr rtype | SliceOf rtype

datatype 'f val =
    StructV "'f Item"
  | PtrV rtype nat
  | NilSliceV rtype
  | SliceV rtype "'f val list"

fun TypeOf :: "'f val \<Rightarrow> rtype" where
  "TypeOf (StructV r) = Struct"
| "TypeOf (PtrV t a) = Ptr t"
| "TypeOf (NilSliceV t) = SliceOf t"
| "TypeOf (SliceV t xs) = SliceOf t"

type_synonym 'f memory = "'f val list"

text \<open>A call returns or panics; the state reached at the panic is kept beside it.\<close>

datatype 'a outcome = Return 'a | Panic string

text \<open>\<^verbatim>\<open>reflect.New(t)\<close>: a pointer to a fresh variable holding the zero value \<open>z\<close> of \<open>t\<close>.\<close>

definition reflect_New :: "'f val \<Rightarrow> 'f memory \<Rightarrow> 'f val \<times> 'f memory" where
  "reflect_New z m = (PtrV (TypeOf z) (length m), m @ [z])"

text \<open>
  \<^verbatim>\<open>reflect.ValueOf(v).Elem()\<close>: the variable a pointer points to, as its type and
  address. It panics on a value that is not a pointer.
\<close>

definition reflect_Elem :: "'f val \<Rightarrow> 'f memory \<Rightarrow> (rtype \<times> nat) outcome" where
  "reflect_Elem v m =
     (case v of
        PtrV t a \<Rightarrow>
          if a < length m then Return (t, a) else Panic ''invalid memory address''
      | _ \<Rightarrow> Panic ''reflect: call of reflect.Value.Elem on a value that is no pointer'')"

text \<open>
  \<^verbatim>\<open>v.Set(x)\<close> on an addressable \<open>v\<close>: the type of \<open>x\<close> must be assignable to the type
  of \<open>v\<close>, which among structs, pointers and slices means identical; otherwise it panics.
\<close>

definition reflect_Set :: "rtype \<times> nat \<Rightarrow> 'f val \<Rightarrow> 'f memory \<Rightarrow> 'f memory outcome" where
  "reflect_Set loc x m =
     (if TypeOf x = fst loc then Return (m[snd loc := x])
      else Panic ''reflect.Set: value is not assignable to the type of the target'')"

text \<open>
  \<^verbatim>\<open>reflect.Append(s, x)\<close>: \<open>s\<close> must be a slice and \<open>x\<close> assignable to its element
  type.
\<close>

definition reflect_Append :: "'f val \<Rightarrow> 'f val \<Rightarrow> 'f val outcome" where
  "reflect_Append s x =
     (case s of
        NilSliceV t \<Rightarrow>
          if TypeOf x = t then Return (SliceV t [x])
          else Panic ''reflect.Set: value is not assignable to the element type''
      | SliceV t xs \<Rightarrow>
          if TypeOf x = t then Return (SliceV t (xs @ [x]))
          else Panic ''reflect.Set: value is not assignable to the element type''
      | _ \<Rightarrow> Panic ''reflect: call of reflect.Append on a value that is no slice'')"

text \<open>
  \<^verbatim>\<open>v.FieldByName("ID").SetInt(id)\<close>: \<open>v\<close> must be a struct; the field \<open>ID\<close> of the
  variable is overwritten and every other field is kept.
\<close>

definition FieldByName_ID_SetInt ::
    "rtype \<times> nat \<Rightarrow> go_int \<Rightarrow> 'f memory \<Rightarrow> 'f memory outcome" where
  "FieldByName_ID_SetInt loc i m =
     (case m ! snd loc of
        StructV r \<Rightarrow>
          if fst loc = Struct then Return (m[snd loc := StructV (r\<lparr>ID := i\<rparr>)])
          else Panic ''reflect: call of reflect.Value.FieldByName on a value that is no struct''
      | _ \<Rightarrow> Panic ''reflect: call of reflect.Value.FieldByName on a value that is no struct'')"

section \<open>The Store\<close>

text \<open>
  \<^verbatim>\<open>Store\<close> has the map \<open>data\<close> and the counter \<open>nextID\<close>; its mutex is left out, every
  method running from lock to unlock without interruption. The store and the memory
  its pointers refer to make up the state the methods work on.
\<close>

record 'f Store =
  data :: "go_int \<rightharpoonup> 'f val"
  nextID :: go_int

record 'f world =
  store :: "'f Store"
  mem :: "'f memory"

definition NewStore :: "'f Store" where
  "NewStore = \<lparr>data = Map.empty, nextID = 1\<rparr>"

text \<open>
  \<^verbatim>\<open>Create\<close>: the counter is read and incremented before reflection runs, so a panic
  of \<open>Elem\<close> or \<open>SetInt\<close> leaves the counter incremented and the map as it was.
\<close>

definition Create :: "'f val \<Rightarrow> 'f world \<Rightarrow> 'f val outcome \<times> 'f world" where
  "Create item w =
     (let i = nextID (store w);
          w1 = w\<lparr>store := (store w)\<lparr>nextID := nextID (store w) + 1\<rparr>\<rparr>
      in case reflect_Elem item (mem w1) of
           Panic e \<Rightarrow> (Panic e, w1)
         | Return itemValue \<Rightarrow>
             (case FieldByName_ID_SetInt itemValue i (mem w1) of
                Panic e \<Rightarrow> (Panic e, w1)
              | Return m' \<Rightarrow>
                  (Return item,
                   w1\<lparr>mem := m',
                      store := (store w1)\<lparr>data := (data (store w1))(i \<mapsto> item)\<rparr>\<rparr>)))"

text \<open>
  \<^verbatim>\<open>Get\<close>: an absent id returns false before any reflection; a present one is copied
  into the variable \<open>result\<close> points to by \<^verbatim>\<open>reflect.ValueOf(result).Elem().Set(...)\<close>.
\<close>

definition Get :: "go_int \<Rightarrow> 'f val \<Rightarrow> 'f world \<Rightarrow> bool outcome \<times> 'f world" where
  "Get i result w =
     (case data (store w) i of
        None \<Rightarrow> (Return False, w)
      | Some item \<Rightarrow>
          (case reflect_Elem result (mem w) of
             Panic e \<Rightarrow> (Panic e, w)
           | Return target \<Rightarrow>
               (case reflect_Set target item (mem w) of
                  Panic e \<Rightarrow> (Panic e, w)
                | Return m' \<Rightarrow> (Return True, w\<lparr>mem := m'\<rparr>))))"

text \<open>
  \<^verbatim>\<open>GetAll\<close>: \<^verbatim>\<open>range s.data\<close> visits the keys in an order the runtime chooses; the
  order is the parameter \<open>keys\<close>. Each round appends one item to the slice variable.
\<close>

fun GetAll_range ::
    "(go_int \<rightharpoonup> 'f val) \<Rightarrow> go_int list \<Rightarrow> rtype \<times> nat \<Rightarrow> 'f memory \<Rightarrow> unit outcome \<times> 'f memory" where
  "GetAll_range d [] itemSlice m = (Return (), m)"
| "GetAll_range d (k # ks) itemSlice m =
     (case d k of
        None \<Rightarrow> GetAll_range d ks itemSlice m
      | Some item \<Rightarrow>
          (case reflect_Append (m ! snd itemSlice) item of
             Panic e \<Rightarrow> (Panic e, m)
           | Return appended \<Rightarrow>
               (case reflect_Set itemSlice appended m of
                  Panic e \<Rightarrow> (Panic e, m)
                | Return m' \<Rightarrow> GetAll_range d ks itemSlice m')))"

definition GetAll :: "go_int list \<Rightarrow> 'f val \<Rightarrow> 'f world \<Rightarrow> unit outcome \<times> 'f world" where
  "GetAll keys result w =
     (case reflect_Elem result (mem w) of
        Panic e \<Rightarrow> (Panic e, w)
      | Return itemSlice \<Rightarrow>
          (case GetAll_range (data (store w)) keys itemSlice (mem w) of
             (r, m') \<Rightarrow> (r, w\<lparr>mem := m'\<rparr>)))"

definition Update :: "go_int \<Rightarrow> 'f val \<Rightarrow> 'f world \<Rightarrow> bool \<times> 'f world" where
  "Update i updatedItem w =
     (case data (store w) i of
        None \<Rightarrow> (False, w)
      | Some _ \<Rightarrow> (True, w\<lparr>store := (store w)\<lparr>data := (data (store w))(i \<mapsto> updatedItem)\<rparr>\<rparr>))"

definition Delete :: "go_int \<Rightarrow> 'f world \<Rightarrow> bool \<times> 'f world" where
  "Delete i w =
     (case data (store w) i of
        None \<Rightarrow> (False, w)
      | Some _ \<Rightarrow> (True, w\<lparr>store := (store w)\<lparr>data := (data (store w))(i := None)\<rparr>\<rparr>))"

section \<open>Sequences of Store calls\<close>

text \<open>
  A caller of the Store makes one call after another; a call that panics is recovered
  by the caller (as \<^verbatim>\<open>net/http\<close> does for a handler) and the next call sees the state
  the panic left. \<open>step\<close> reports the ID a returning \<^verbatim>\<open>Create\<close> has written into the
  item it returns.
\<close>

datatype 'f op =
    OpCreate "'f val"
  | OpGet go_int "'f val"
  | OpGetAll "go_int list" "'f val"
  | OpUpdate go_int "'f val"
  | OpDelete go_int

definition ID_of :: "'f val \<Rightarrow> 'f memory \<Rightarrow> go_int option" where
  "ID_of v m =
     (case v of
        PtrV t a \<Rightarrow>
          if a < length m then (case m ! a of StructV r \<Rightarrow> Some (ID r) | _ \<Rightarrow> None)
          else None
      | _ \<Rightarrow> None)"

fun step :: "'f op \<Rightarrow> 'f world \<Rightarrow> go_int list \<times> 'f world" where
  "step (OpCreate item) w =
     (case Create item w of
        (Return created, w') \<Rightarrow>
          (case ID_of created (mem w') of Some i \<Rightarrow> ([i], w') | None \<Rightarrow> ([], w'))
      | (Panic e, w') \<Rightarrow> ([], w'))"
| "step (OpGet i result) w = ([], snd (Get i result w))"
| "step (OpGetAll keys result) w = ([], snd (GetAll keys result w))"
| "step (OpUpdate i item) w = ([], snd (Update i item w))"
| "step (OpDelete i) w = ([], snd (Delete i w))"

fun run :: "'f op list \<Rightarrow> 'f world \<Rightarrow> go_int list \<times> 'f world" where
  "run [] w = ([], w)"
| "run (x # xs) w =
     (case step x w of
        (issued, w1) \<Rightarrow> (case run xs w1 of (later, w2) \<Rightarrow> (issued @ later, w2)))"

fun isCreate :: "'f op \<Rightarrow> bool" where
  "isCreate (OpCreate item) = True"
| "isCreate _ = False"

section \<open>The HTTP side\<close>

text \<open>
  Of a request the handler reads the method, the query (\<^verbatim>\<open>r.URL.Query()\<close>, a map from
  a key to its values) and the body. \<^verbatim>\<open>Values.Get\<close> returns the first value of a key,
  and the empty string when there is none.
\<close>

record Request =
  Method :: string
  Query :: "string \<rightharpoonup> string list"
  Body :: string

definition Query_Get :: "(string \<rightharpoonup> string list) \<Rightarrow> string \<Rightarrow> string" where
  "Query_Get q key = (case q key of None \<Rightarrow> [] | Some [] \<Rightarrow> [] | Some (v # vs) \<Rightarrow> v)"

text \<open>
  \<^verbatim>\<open>strconv.Atoi\<close>, after its documentation: an optional sign, then at least one decimal
  digit and nothing else; a value outside the range of \<^verbatim>\<open>int\<close> is an error.
\<close>

definition isDigit :: "char \<Rightarrow> bool" where
  "isDigit c = (c \<in> set ''0123456789'')"

definition digitVal :: "char \<Rightarrow> nat" where
  "digitVal c = of_char c - 48"

definition Atoi :: "string \<Rightarrow> go_int option" where
  "Atoi s =
     (let neg = (s \<noteq> [] \<and> hd s = CHR ''-'');
          ds = (if s \<noteq> [] \<and> (hd s = CHR ''-'' \<or> hd s = CHR ''+'') then tl s else s)
      in if ds = [] \<or> \<not> list_all isDigit ds then None
         else
           (let n = int (foldl (\<lambda>a c. 10 * a + digitVal c) 0 ds);
                v = (if neg then - n else n)
            in if - (2 ^ 63) \<le> v \<and> v < 2 ^ 63 then Some (word_of_int v) else None))"

text \<open>
  The response: the header map of \<^verbatim>\<open>w.Header()\<close>, the status once it is written, and
  what was written to the body. A JSON body is kept as the JSON value the encoder
  produced, a text body as its characters.
\<close>

datatype 'f json = JNull | JObject "'f Item" | JArray "'f json list"

datatype 'f chunk = Text string | Json "'f json"

record 'f ResponseWriter =
  Header :: "string \<rightharpoonup> string"
  Status :: "nat option"
  Written :: "'f chunk list"

definition NewResponseWriter :: "'f ResponseWriter" where
  "NewResponseWriter = \<lparr>Header = Map.empty, Status = None, Written = []\<rparr>"

definition Header_Set :: "string \<Rightarrow> string \<Rightarrow> 'f ResponseWriter \<Rightarrow> 'f ResponseWriter" where
  "Header_Set k v rw = rw\<lparr>Header := (Header rw)(k \<mapsto> v)\<rparr>"

text \<open>\<^verbatim>\<open>WriteHeader\<close> fixes the status once; a first \<^verbatim>\<open>Write\<close> without it means 200.\<close>

definition WriteHeader :: "nat \<Rightarrow> 'f ResponseWriter \<Rightarrow> 'f ResponseWriter" where
  "WriteHeader code rw = (if Status rw = None then rw\<lparr>Status := Some code\<rparr> else rw)"

definition Write :: "'f chunk \<Rightarrow> 'f ResponseWriter \<Rightarrow> 'f ResponseWriter" where
  "Write c rw = (let rw1 = WriteHeader 200 rw in rw1\<lparr>Written := Written rw1 @ [c]\<rparr>)"

text \<open>
  \<^verbatim>\<open>http.Error\<close>: a plain-text content type, the status, and the message with a
  newline.
\<close>

definition http_Error :: "'f ResponseWriter \<Rightarrow> string \<Rightarrow> nat \<Rightarrow> 'f ResponseWriter" where
  "http_Error rw msg code =
     Write (Text (msg @ [CHR 0x0A]))
       (WriteHeader code
         (Header_Set ''X-Content-Type-Options'' ''nosniff''
           (Header_Set ''Content-Type'' ''text/plain; charset=utf-8'' rw)))"

text \<open>
  \<^verbatim>\<open>encoding/json\<close> on the values above: a struct is an object, a pointer is followed,
  a nil slice is \<^verbatim>\<open>null\<close>, any other slice is an array.
\<close>

fun Marshal :: "'f memory \<Rightarrow> rtype \<Rightarrow> 'f val \<Rightarrow> 'f json" where
  "Marshal m Struct (StructV r) = JObject r"
| "Marshal m (Ptr t) (PtrV t' a) = (if a < length m then Marshal m t (m ! a) else JNull)"
| "Marshal m (SliceOf t) (NilSliceV t') = JNull"
| "Marshal m (SliceOf t) (SliceV t' xs) = JArray (map (Marshal m t) xs)"
| "Marshal m t v = JNull"

definition json_Encode :: "'f memory \<Rightarrow> 'f val \<Rightarrow> 'f ResponseWriter \<Rightarrow> 'f ResponseWriter" where
  "json_Encode m v rw = Write (Json (Marshal m (TypeOf v) v)) rw"

text \<open>
  The model type as the handler needs it: its zero value, and what \<^verbatim>\<open>Decode\<close> of a
  body does to a variable of the type: whether it fails, and the variable afterwards.
\<close>

record 'f modelType =
  Zero :: "'f Item"
  Decode :: "string \<Rightarrow> 'f Item \<Rightarrow> bool \<times> 'f Item"

definition json_Decode ::
    "'f modelType \<Rightarrow> string \<Rightarrow> 'f val \<Rightarrow> 'f world \<Rightarrow> bool \<times> 'f world" where
  "json_Decode modelType body target w =
     (case target of
        PtrV t a \<Rightarrow>
          if a < length (mem w) then
            (case mem w ! a of
               StructV z \<Rightarrow>
                 (case Decode modelType body z of
                    (err, z') \<Rightarrow> (err, w\<lparr>mem := (mem w)[a := StructV z']\<rparr>))
             | _ \<Rightarrow> (True, w))
          else (True, w)
      | _ \<Rightarrow> (True, w))"

definition new_model :: "'f modelType \<Rightarrow> 'f world \<Rightarrow> 'f val \<times> 'f world" where
  "new_model modelType w =
     (case reflect_New (StructV (Zero modelType)) (mem w) of (p, m') \<Rightarrow> (p, w\<lparr>mem := m'\<rparr>))"

definition new_slice :: "'f world \<Rightarrow> 'f val \<times> 'f world" where
  "new_slice w =
     (case reflect_New (NilSliceV Struct) (mem w) of (p, m') \<Rightarrow> (p, w\<lparr>mem := m'\<rparr>))"

text \<open>
  \<^verbatim>\<open>handleRequest\<close>, branch by branch. \<open>keys\<close> is the order in which \<^verbatim>\<open>GetAll\<close> will
  range over the map. A panic leaves the handler; what it had written is dropped.
\<close>

definition handleRequest ::
    "'f modelType \<Rightarrow> go_int list \<Rightarrow> 'f ResponseWriter \<Rightarrow> Request \<Rightarrow> 'f world
       \<Rightarrow> 'f ResponseWriter outcome \<times> 'f world" where
  "handleRequest modelType keys rw r w =
     (if Method r = ''POST'' then
        (case new_model modelType w of
           (newItem, w1) \<Rightarrow>
             (case json_Decode modelType (Body r) newItem w1 of
                (err, w2) \<Rightarrow>
                  if err then (Return (http_Error rw ''Invalid request payload'' 400), w2)
                  else
                    (case Create newItem w2 of
                       (Panic e, w3) \<Rightarrow> (Panic e, w3)
                     | (Return createdItem, w3) \<Rightarrow>
                         (Return (json_Encode (mem w3) createdItem (WriteHeader 201 rw)), w3))))
      else if Method r = ''GET'' then
        (if Query_Get (Query r) ''id'' = [] then
           (case new_slice w of
              (result, w1) \<Rightarrow>
                (case GetAll keys result w1 of
                   (Panic e, w2) \<Rightarrow> (Panic e, w2)
                 | (Return u, w2) \<Rightarrow>
                     (Return (json_Encode (mem w2) result
                        (Header_Set ''Content-Type'' ''application/json'' rw)), w2)))
         else
           (case Atoi (Query_Get (Query r) ''id'') of
              None \<Rightarrow> (Return (http_Error rw ''Invalid ID'' 400), w)
            | Some i \<Rightarrow>
                (case new_model modelType w of
                   (result, w1) \<Rightarrow>
                     (case Get i result w1 of
                        (Panic e, w2) \<Rightarrow> (Panic e, w2)
                      | (Return found, w2) \<Rightarrow>
                          if found then
                            (Return (json_Encode (mem w2) result
                               (Header_Set ''Content-Type'' ''application/json'' rw)), w2)
                          else (Return (http_Error rw ''Item not found'' 404), w2)))))
      else if Method r = ''PUT'' then
        (case Atoi (Query_Get (Query r) ''id'') of
           None \<Rightarrow> (Return (http_Error rw ''Invalid ID'' 400), w)
         | Some i \<Rightarrow>
             (case new_model modelType w of
                (updatedItem, w1) \<Rightarrow>
                  (case json_Decode modelType (Body r) updatedItem w1 of
                     (err, w2) \<Rightarrow>
                       if err then (Return (http_Error rw ''Invalid request payload'' 400), w2)
                       else
                         (case Update i updatedItem w2 of
                            (found, w3) \<Rightarrow>
                              if found then
                                (Return (json_Encode (mem w3) updatedItem
                                   (Header_Set ''Content-Type'' ''application/json'' rw)), w3)
                              else (Return (http_Error rw ''Item not found'' 404), w3)))))
      else if Method r = ''DELETE'' then
        (case Atoi (Query_Get (Query r) ''id'') of
           None \<Rightarrow> (Return (http_Error rw ''Invalid ID'' 400), w)
         | Some i \<Rightarrow>
             (case Delete i w of
                (found, w1) \<Rightarrow>
                  if found then (Return (WriteHeader 204 rw), w1)
                  else (Return (http_Error rw ''Item not found'' 404), w1)))
      else (Return (http_Error rw ''Unsupported method'' 405), w))"

section \<open>The example of main.go\<close>

text \<open>
  \<^verbatim>\<open>main.go\<close> registers the struct \<^verbatim>\<open>Item\<close> with the fields \<^verbatim>\<open>ID\<close>, \<^verbatim>\<open>Title\<close> and \<^verbatim>\<open>Done\<close>.
  \<open>ItemType\<close> stands for \<^verbatim>\<open>reflect.TypeOf(Item{})\<close>: the zero \<^verbatim>\<open>Item\<close>, and the decoder
  tabulated at the three request bodies used in the examples below, where it agrees with
  \<^verbatim>\<open>encoding/json\<close> (a key that is absent leaves its field as it was). No other body
  is used with it except as an instance of a body that fails to decode.
\<close>

definition ItemType :: "(string \<times> bool) modelType" where
  \<open>ItemType =
     \<lparr>Zero = \<lparr>ID = 0, Fields = ([], False)\<rparr>,
      Decode = (\<lambda>body z.
        if body = ''{"title":"Learn Go","done":false}''
          then (False, z\<lparr>Fields := (''Learn Go'', False)\<rparr>)
        else if body = ''{"id":1,"title":"Learn Go","done":true}''
          then (False, \<lparr>ID = 1, Fields = (''Learn Go'', True)\<rparr>)
        else if body = ''{"id":42,"title":"Learn Go","done":false}''
          then (False, \<lparr>ID = 42, Fields = (''Learn Go'', False)\<rparr>)
        else (True, z))\<rparr>\<close>

definition request :: "string \<Rightarrow> string option \<Rightarrow> string \<Rightarrow> Request" where
  "request method i body =
     \<lparr>Method = method,
      Query = (case i of None \<Rightarrow> Map.empty | Some v \<Rightarrow> [''id'' \<mapsto> [v]]),
      Body = body\<rparr>"

definition started :: "(string \<times> bool) world" where
  "started = \<lparr>store = NewStore, mem = []\<rparr>"

text \<open>The state after the first request of the README, the POST of "Learn Go".\<close>

definition posted :: "(string \<times> bool) world" where
  \<open>posted =
     snd (handleRequest ItemType [] NewResponseWriter
            (request ''POST'' None ''{"title":"Learn Go","done":false}'') started)\<close>

text \<open>The state after that record is deleted again.\<close>

definition emptied :: "(string \<times> bool) world" where
  "emptied = snd (handleRequest ItemType [] NewResponseWriter (request ''DELETE'' (Some ''1'') []) posted)"

section \<open>Basic facts\<close>

lemmas reflect_defs =
  reflect_New_def reflect_Elem_def reflect_Set_def reflect_Append_def
  FieldByName_ID_SetInt_def

lemmas http_defs =
  Query_Get_def NewResponseWriter_def Header_Set_def WriteHeader_def Write_def
  http_Error_def json_Encode_def json_Decode_def new_model_def new_slice_def

lemma Atoi_empty: "Atoi [] = None"
  by (simp add: Atoi_def)

lemma Atoi_1: "Atoi ''1'' = Some 1"
  by (simp add: Atoi_def isDigit_def digitVal_def)

lemma Atoi_7: "Atoi ''7'' = Some 7"
  by (simp add: Atoi_def isDigit_def digitVal_def)

lemma posted_eq:
  "posted =
     \<lparr>store = \<lparr>data = [1 \<mapsto> PtrV Struct 0], nextID = 2\<rparr>,
      mem = [StructV \<lparr>ID = 1, Fields = (''Learn Go'', False)\<rparr>]\<rparr>"
  by (simp add: posted_def started_def NewStore_def request_def ItemType_def
      handleRequest_def Create_def reflect_defs http_defs)

lemma emptied_eq:
  "emptied =
     \<lparr>store = \<lparr>data = Map.empty, nextID = 2\<rparr>,
      mem = [StructV \<lparr>ID = 1, Fields = (''Learn Go'', False)\<rparr>]\<rparr>"
  by (simp add: emptied_def posted_eq request_def handleRequest_def Delete_def Atoi_1 http_defs)

section \<open>What Get and GetAll do with what Create stores\<close>

text \<open>
  \<^verbatim>\<open>Create\<close> needs a pointer to a struct, sets the field \<open>ID\<close> of the struct it points
  to, and stores and returns the pointer itself.
\<close>

lemma Create_pointer:
  assumes "a < length (mem w)" and "mem w ! a = StructV x"
  shows "Create (PtrV Struct a) w =
     (Return (PtrV Struct a),
      \<lparr>store = \<lparr>data = (data (store w))(nextID (store w) \<mapsto> PtrV Struct a),
                 nextID = nextID (store w) + 1\<rparr>,
        mem = (mem w)[a := StructV (x\<lparr>ID := nextID (store w)\<rparr>)]\<rparr>)"
  using assms by (simp add: Create_def reflect_defs Let_def)

text \<open>
  \<^verbatim>\<open>Get\<close> copies the stored value into the variable \<open>result\<close> points to when that
  variable has the type of the stored value.
\<close>

lemma Get_assignable:
  assumes "data (store w) i = Some item" and "b < length (mem w)"
  shows "Get i (PtrV (TypeOf item) b) w = (Return True, w\<lparr>mem := (mem w)[b := item]\<rparr>)"
  using assms by (simp add: Get_def reflect_defs)

text \<open>
  The stored value being a pointer, as after \<^verbatim>\<open>Create\<close>, and \<open>result\<close> pointing to a
  struct, as the comment in \<^verbatim>\<open>Get\<close> and the call in \<^verbatim>\<open>handleRequest\<close> have it, the types
  differ and \<^verbatim>\<open>Set\<close> panics.
\<close>

lemma Get_into_struct_panics:
  assumes "data (store w) i = Some (PtrV t a)" and "b < length (mem w)"
  shows "Get i (PtrV Struct b) w =
     (Panic ''reflect.Set: value is not assignable to the type of the target'', w)"
  using assms by (simp add: Get_def reflect_defs)

lemma GetAll_into_struct_slice_panics:
  assumes "d k = Some (PtrV t a)" and "m ! b = NilSliceV Struct"
  shows "GetAll_range d (k # ks) (SliceOf Struct, b) m =
     (Panic ''reflect.Set: value is not assignable to the element type'', m)"
  using assms by (simp add: reflect_defs)

lemma Update_present:
  assumes "data (store w) i \<noteq> None"
  shows "Update i item w = (True, w\<lparr>store := (store w)\<lparr>data := (data (store w))(i \<mapsto> item)\<rparr>\<rparr>)"
  using assms by (auto simp add: Update_def)

text \<open>
  C2. The claim: after \<^verbatim>\<open>Create(r)\<close> has assigned the ID, \<^verbatim>\<open>Get\<close> of that ID succeeds and
  returns \<open>r\<close> with the ID set. On the code: \<^verbatim>\<open>Create\<close> of a pointer to the item titled
  "Learn Go" returns the pointer and stores it under ID 1; \<^verbatim>\<open>Get\<close> of 1 into a fresh
  zero item then panics instead of returning true, and nothing is copied.
\<close>

theorem Create_then_Get_panics:
  "Create (PtrV Struct 0)
      \<lparr>store = NewStore,
        mem = [StructV \<lparr>ID = 0, Fields = (''Learn Go'', False)\<rparr>,
               StructV \<lparr>ID = 0, Fields = ([], False)\<rparr>]\<rparr>
     = (Return (PtrV Struct 0),
        \<lparr>store = \<lparr>data = [1 \<mapsto> PtrV Struct 0], nextID = 2\<rparr>,
          mem = [StructV \<lparr>ID = 1, Fields = (''Learn Go'', False)\<rparr>,
                 StructV \<lparr>ID = 0, Fields = ([], False)\<rparr>]\<rparr>)
   \<and> Get 1 (PtrV Struct 1)
        \<lparr>store = \<lparr>data = [1 \<mapsto> PtrV Struct 0], nextID = 2\<rparr>,
          mem = [StructV \<lparr>ID = 1, Fields = (''Learn Go'', False)\<rparr>,
                 StructV \<lparr>ID = 0, Fields = ([], False)\<rparr>]\<rparr>
     = (Panic ''reflect.Set: value is not assignable to the type of the target'',
        \<lparr>store = \<lparr>data = [1 \<mapsto> PtrV Struct 0], nextID = 2\<rparr>,
          mem = [StructV \<lparr>ID = 1, Fields = (''Learn Go'', False)\<rparr>,
                 StructV \<lparr>ID = 0, Fields = ([], False)\<rparr>]\<rparr>)"
  by (simp add: Create_def Get_def NewStore_def reflect_defs)

text \<open>The same through the handler: the GET of the README after its POST.\<close>

lemma GET_by_id_panics:
  "fst (handleRequest ItemType [1] NewResponseWriter (request ''GET'' (Some ''1'') []) posted)
     = Panic ''reflect.Set: value is not assignable to the type of the target''"
  by (simp add: posted_eq request_def ItemType_def handleRequest_def Get_def Atoi_1
      reflect_defs http_defs)

text \<open>
  C3. The claim: \<^verbatim>\<open>Update(id, r2)\<close> on a present id returns true and replaces the stored
  value by \<open>r2\<close>, and \<^verbatim>\<open>Get\<close> then returns exactly \<open>r2\<close>. On the code: in the state after
  the POST, \<^verbatim>\<open>Update\<close> of 1 with a pointer to a second item returns true and the map holds
  that pointer (the replacement is whole); \<^verbatim>\<open>Get\<close> of 1 into a fresh zero item panics.
\<close>

theorem Update_then_Get_panics:
  "Update 1 (PtrV Struct 1)
      \<lparr>store = \<lparr>data = [1 \<mapsto> PtrV Struct 0], nextID = 2\<rparr>,
        mem = [StructV \<lparr>ID = 1, Fields = (''Learn Go'', False)\<rparr>,
               StructV \<lparr>ID = 5, Fields = (''Learn Go'', True)\<rparr>,
               StructV \<lparr>ID = 0, Fields = ([], False)\<rparr>]\<rparr>
     = (True,
        \<lparr>store = \<lparr>data = [1 \<mapsto> PtrV Struct 1], nextID = 2\<rparr>,
          mem = [StructV \<lparr>ID = 1, Fields = (''Learn Go'', False)\<rparr>,
                 StructV \<lparr>ID = 5, Fields = (''Learn Go'', True)\<rparr>,
                 StructV \<lparr>ID = 0, Fields = ([], False)\<rparr>]\<rparr>)
   \<and> Get 1 (PtrV Struct 2)
        \<lparr>store = \<lparr>data = [1 \<mapsto> PtrV Struct 1], nextID = 2\<rparr>,
          mem = [StructV \<lparr>ID = 1, Fields = (''Learn Go'', False)\<rparr>,
                 StructV \<lparr>ID = 5, Fields = (''Learn Go'', True)\<rparr>,
                 StructV \<lparr>ID = 0, Fields = ([], False)\<rparr>]\<rparr>
     = (Panic ''reflect.Set: value is not assignable to the type of the target'',
        \<lparr>store = \<lparr>data = [1 \<mapsto> PtrV Struct 1], nextID = 2\<rparr>,
          mem = [StructV \<lparr>ID = 1, Fields = (''Learn Go'', False)\<rparr>,
                 StructV \<lparr>ID = 5, Fields = (''Learn Go'', True)\<rparr>,
                 StructV \<lparr>ID = 0, Fields = ([], False)\<rparr>]\<rparr>)"
  by (simp add: Update_def Get_def reflect_defs)

text \<open>
  C4. \<^verbatim>\<open>Delete\<close> returns true exactly when the id was in the map before the call. After
  it, \<^verbatim>\<open>Get\<close> of that id returns false, whatever \<open>result\<close> is, and a second \<^verbatim>\<open>Delete\<close>
  returns false; both leave the state as it is.
\<close>

theorem Delete_then_absent:
  "fst (Delete i w) = (data (store w) i \<noteq> None)
   \<and> Get i result (snd (Delete i w)) = (Return False, snd (Delete i w))
   \<and> Delete i (snd (Delete i w)) = (False, snd (Delete i w))"
  by (simp add: Delete_def Get_def split: option.splits)

text \<open>
  C5. The claim: after N successful creates and M successful deletes \<^verbatim>\<open>GetAll\<close> returns
  N - M records. On the code, with N = 1 and M = 0: after the one \<^verbatim>\<open>Create\<close>, \<^verbatim>\<open>GetAll\<close>
  into a fresh slice of items panics at the first item and the slice stays nil.
\<close>

theorem GetAll_after_Create_panics:
  "Create (PtrV Struct 0)
      \<lparr>store = NewStore,
        mem = [StructV \<lparr>ID = 0, Fields = (''Learn Go'', False)\<rparr>, NilSliceV Struct]\<rparr>
     = (Return (PtrV Struct 0),
        \<lparr>store = \<lparr>data = [1 \<mapsto> PtrV Struct 0], nextID = 2\<rparr>,
          mem = [StructV \<lparr>ID = 1, Fields = (''Learn Go'', False)\<rparr>, NilSliceV Struct]\<rparr>)
   \<and> GetAll [1] (PtrV (SliceOf Struct) 1)
        \<lparr>store = \<lparr>data = [1 \<mapsto> PtrV Struct 0], nextID = 2\<rparr>,
          mem = [StructV \<lparr>ID = 1, Fields = (''Learn Go'', False)\<rparr>, NilSliceV Struct]\<rparr>
     = (Panic ''reflect.Set: value is not assignable to the element type'',
        \<lparr>store = \<lparr>data = [1 \<mapsto> PtrV Struct 0], nextID = 2\<rparr>,
          mem = [StructV \<lparr>ID = 1, Fields = (''Learn Go'', False)\<rparr>, NilSliceV Struct]\<rparr>)"
  by (simp add: Create_def GetAll_def NewStore_def reflect_defs)

section \<open>The IDs that Create issues\<close>

lemma sint_succ:
  fixes x :: go_int
  assumes "sint x + 1 < 2 ^ 63"
  shows "sint (x + 1) = sint x + 1"
proof -
  have lo: "- (2 ^ 63) \<le> sint x"
    using sint_ge [of x] by simp
  have "sint (x + 1) = signed_take_bit 63 (sint x + 1)"
    by (simp add: sint_word_ariths)
  also have "\<dots> = sint x + 1"
    using assms lo by (simp add: signed_take_bit_int_eq_self)
  finally show ?thesis .
qed

text \<open>Every call of \<^verbatim>\<open>Create\<close> increments the counter, a panicking one too.\<close>

lemma Create_nextID: "nextID (store (snd (Create item w))) = nextID (store w) + 1"
  by (simp add: Create_def Let_def split: outcome.splits)

lemma Create_Return_ID:
  assumes "Create item w = (Return created, w')"
  shows "ID_of created (mem w') = Some (nextID (store w))"
  using assms
  by (auto simp add: Create_def Let_def ID_of_def reflect_defs
      split: outcome.splits val.splits if_splits)

lemma step_nextID:
  "nextID (store (snd (step x w))) =
     (if isCreate x then nextID (store w) + 1 else nextID (store w))"
proof (cases x)
  case (OpCreate item)
  with Create_nextID [of item w] show ?thesis
    by (auto split: prod.splits outcome.splits option.splits)
next
  case (OpGet i result)
  then show ?thesis
    by (auto simp add: Get_def split: option.splits outcome.splits)
next
  case (OpGetAll keys result)
  then show ?thesis
    by (auto simp add: GetAll_def split: outcome.splits prod.splits)
next
  case (OpUpdate i item)
  then show ?thesis
    by (auto simp add: Update_def split: option.splits)
next
  case (OpDelete i)
  then show ?thesis
    by (auto simp add: Delete_def split: option.splits)
qed

lemma step_issued:
  "fst (step x w) = [] \<or> (isCreate x \<and> fst (step x w) = [nextID (store w)])"
proof (cases x)
  case (OpCreate item)
  show ?thesis
  proof (cases "Create item w")
    case (Pair res w')
    show ?thesis
    proof (cases res)
      case (Return created)
      with Pair Create_Return_ID [of item w created w'] OpCreate show ?thesis
        by simp
    next
      case (Panic e)
      with Pair OpCreate show ?thesis
        by simp
    qed
  qed
qed simp_all

text \<open>
  While the counter stays below its largest value, it counts the calls of \<^verbatim>\<open>Create\<close>,
  and the IDs issued lie between its old and its new value, in increasing order.
\<close>

lemma run_invariant:
  "sint (nextID (store w)) + int (length (filter isCreate ops)) < 2 ^ 63 \<Longrightarrow>
     sint (nextID (store (snd (run ops w))))
       = sint (nextID (store w)) + int (length (filter isCreate ops))
     \<and> (\<forall>i \<in> set (fst (run ops w)).
           sint (nextID (store w)) \<le> sint i
           \<and> sint i < sint (nextID (store (snd (run ops w)))))
     \<and> sorted_wrt (<) (map sint (fst (run ops w)))"
proof (induction ops arbitrary: w)
  case Nil
  then show ?case by simp
next
  case (Cons x xs)
  obtain issued w1 where s: "step x w = (issued, w1)"
    by (cases "step x w")
  obtain later w2 where r: "run xs w1 = (later, w2)"
    by (cases "run xs w1")
  have n1: "nextID (store w1) = (if isCreate x then nextID (store w) + 1 else nextID (store w))"
    using step_nextID [of x w] s by simp
  have s1: "sint (nextID (store w1)) = sint (nextID (store w)) + (if isCreate x then 1 else 0)"
    using n1 Cons.prems by (auto simp add: sint_succ)
  have pre: "sint (nextID (store w1)) + int (length (filter isCreate xs)) < 2 ^ 63"
    using s1 Cons.prems by auto
  note IH = Cons.IH [OF pre, unfolded r, simplified]
  have iss: "issued = [] \<or> (isCreate x \<and> issued = [nextID (store w)])"
    using step_issued [of x w] s by simp
  have run: "run (x # xs) w = (issued @ later, w2)"
    using s r by simp
  show ?case
    unfolding run using IH s1 iss
    by (auto simp add: sorted_wrt_append)
qed

text \<open>
  The same pointer created \<open>n\<close> times over: the IDs are the \<open>n\<close> successors of the
  counter, computed in 64 bits.
\<close>

lemma run_Creates:
  assumes "mem w = [StructV x]"
  shows "fst (run (replicate n (OpCreate (PtrV Struct 0))) w)
     = map (\<lambda>j. nextID (store w) + of_nat j) [0..<n]"
  using assms
proof (induction n arbitrary: w x)
  case 0
  then show ?case by simp
next
  case (Suc n)
  let ?w1 = "\<lparr>store = \<lparr>data = (data (store w))(nextID (store w) \<mapsto> PtrV Struct 0),
                        nextID = nextID (store w) + 1\<rparr>,
              mem = [StructV (x\<lparr>ID := nextID (store w)\<rparr>)]\<rparr>"
  have c: "Create (PtrV Struct 0) w = (Return (PtrV Struct 0), ?w1)"
    using Suc.prems by (simp add: Create_def reflect_defs Let_def)
  have s: "step (OpCreate (PtrV Struct 0)) w = ([nextID (store w)], ?w1)"
    using c by (simp add: ID_of_def)
  have "mem ?w1 = [StructV (x\<lparr>ID := nextID (store w)\<rparr>)]"
    by simp
  from Suc.IH [OF this]
  have later: "fst (run (replicate n (OpCreate (PtrV Struct 0))) ?w1)
     = map (\<lambda>j. nextID (store w) + 1 + of_nat j) [0..<n]"
    by simp
  have "[0..<Suc n] = 0 # map Suc [0..<n]"
    by (simp add: upt_conv_Cons map_Suc_upt del: upt_Suc)
  then have "map (\<lambda>j. nextID (store w) + of_nat j) [0..<Suc n]
      = nextID (store w) # map (\<lambda>j. nextID (store w) + 1 + of_nat j) [0..<n]"
    by (simp add: comp_def add.assoc del: upt_Suc)
  with s later show ?case
    by (simp add: split_beta del: upt_Suc)
qed

text \<open>
  C1, as amended. From a new store, and as long as \<^verbatim>\<open>Create\<close> has been called fewer than
  \<open>2^63 - 1\<close> times, whatever other calls come in between and whether or not they
  panic: the IDs that \<^verbatim>\<open>Create\<close> returned are strictly increasing as signed integers
  and pairwise different, each is below the counter, and the counter, which started at
  1, is 1 plus the number of calls of \<^verbatim>\<open>Create\<close>.
\<close>

theorem Create_IDs_increase:
  assumes "store w = NewStore"
    and "length (filter isCreate ops) < 2 ^ 63 - 1"
  shows "sorted_wrt (<) (map sint (fst (run ops w)))
     \<and> distinct (fst (run ops w))
     \<and> (\<forall>i \<in> set (fst (run ops w)). sint i < sint (nextID (store (snd (run ops w)))))
     \<and> nextID (store w) = 1
     \<and> sint (nextID (store (snd (run ops w)))) = 1 + int (length (filter isCreate ops))"
proof -
  have one: "nextID (store w) = 1"
    using assms(1) by (simp add: NewStore_def)
  have pre: "sint (nextID (store w)) + int (length (filter isCreate ops)) < 2 ^ 63"
    using assms(2) one by simp
  note inv = run_invariant [OF pre]
  have "distinct (map sint (fst (run ops w)))"
    using inv by (simp add: strict_sorted_iff)
  then have "distinct (fst (run ops w))"
    by (simp add: distinct_map)
  with inv one show ?thesis
    by auto
qed

text \<open>
  A create, a delete of the record and a second create: the IDs are 1 and 2, and the
  counter ends at 3.
\<close>

theorem Create_IDs_increase_witness:
  "store \<lparr>store = NewStore, mem = [StructV \<lparr>ID = 0, Fields = ()\<rparr>]\<rparr> = NewStore
   \<and> length (filter isCreate
        [OpCreate (PtrV Struct 0), OpDelete 1, OpCreate (PtrV Struct 0) :: unit op]) < 2 ^ 63 - 1
   \<and> fst (run [OpCreate (PtrV Struct 0), OpDelete 1, OpCreate (PtrV Struct 0)]
        \<lparr>store = NewStore, mem = [StructV \<lparr>ID = 0, Fields = ()\<rparr>]\<rparr>) = [1, 2]
   \<and> sorted_wrt (<) (map sint
        (fst (run [OpCreate (PtrV Struct 0), OpDelete 1, OpCreate (PtrV Struct 0)]
           \<lparr>store = NewStore, mem = [StructV \<lparr>ID = 0, Fields = ()\<rparr>]\<rparr>)))
   \<and> distinct
        (fst (run [OpCreate (PtrV Struct 0), OpDelete 1, OpCreate (PtrV Struct 0)]
           \<lparr>store = NewStore, mem = [StructV \<lparr>ID = 0, Fields = ()\<rparr>]\<rparr>))
   \<and> sint (nextID (store (snd
        (run [OpCreate (PtrV Struct 0), OpDelete 1, OpCreate (PtrV Struct 0)]
           \<lparr>store = NewStore, mem = [StructV \<lparr>ID = 0, Fields = ()\<rparr>]\<rparr>)))) = 3"
proof -
  let ?w = "\<lparr>store = NewStore, mem = [StructV \<lparr>ID = 0, Fields = ()\<rparr>]\<rparr>"
  let ?ops = "[OpCreate (PtrV Struct 0), OpDelete 1, OpCreate (PtrV Struct 0) :: unit op]"
  have h1: "store ?w = NewStore"
    by simp
  have h2: "length (filter isCreate ?ops) < 2 ^ 63 - 1"
    by simp
  have ids: "fst (run ?ops ?w) = [1, 2]"
    by (simp add: Create_def Delete_def ID_of_def NewStore_def reflect_defs)
  from Create_IDs_increase [OF h1 h2] h1 h2 ids show ?thesis
    by simp
qed

text \<open>
  The claim without the bound fails: \<open>2^63\<close> calls of \<^verbatim>\<open>Create\<close> from a new store issue
  the largest \<^verbatim>\<open>int\<close> and then, the counter having wrapped around, the smallest.
\<close>

theorem Create_IDs_wrap_around:
  "\<not> sorted_wrt (<) (map sint (fst (run (replicate (2 ^ 63) (OpCreate (PtrV Struct 0)))
        \<lparr>store = NewStore, mem = [StructV \<lparr>ID = 0, Fields = ()\<rparr>]\<rparr>)))"
proof
  let ?ids = "fst (run (replicate (2 ^ 63) (OpCreate (PtrV Struct 0)))
        \<lparr>store = NewStore, mem = [StructV \<lparr>ID = 0, Fields = ()\<rparr>]\<rparr>)"
  let ?n = "2 ^ 63 :: nat"
  assume sorted: "sorted_wrt (<) (map sint ?ids)"
  have ids: "?ids = map (\<lambda>j. (1 :: go_int) + of_nat j) [0..<?n]"
    using run_Creates [of "\<lparr>store = NewStore, mem = [StructV \<lparr>ID = 0, Fields = ()\<rparr>]\<rparr>"
        "\<lparr>ID = 0, Fields = ()\<rparr>" ?n]
    by (simp add: NewStore_def)
  have len: "length (map sint ?ids) = ?n"
    unfolding ids by simp
  have a: "map sint ?ids ! (?n - 2) = sint ((1 :: go_int) + of_nat (?n - 2))"
    unfolding ids by (simp del: upt_Suc)
  have b: "map sint ?ids ! (?n - 1) = sint ((1 :: go_int) + of_nat (?n - 1))"
    unfolding ids by (simp del: upt_Suc)
  have "map sint ?ids ! (?n - 2) < map sint ?ids ! (?n - 1)"
    using sorted_wrt_nth_less [OF sorted, of "?n - 2" "?n - 1"] len by simp
  then show False
    unfolding a b by simp
qed

section \<open>The handler\<close>

lemma Status_http_Error: "Status rw = None \<Longrightarrow> Status (http_Error rw msg code) = Some code"
  by (simp add: http_Error_def Write_def WriteHeader_def Header_Set_def Let_def)

lemma Status_json_Encode_200:
  "Status rw = None \<Longrightarrow> Status (json_Encode m v (Header_Set k x rw)) = Some 200"
  by (simp add: json_Encode_def Write_def WriteHeader_def Header_Set_def Let_def)

lemma Status_json_Encode_201:
  "Status rw = None \<Longrightarrow> Status (json_Encode m v (WriteHeader 201 rw)) = Some 201"
  by (simp add: json_Encode_def Write_def WriteHeader_def Let_def)

lemma Status_WriteHeader: "Status rw = None \<Longrightarrow> Status (WriteHeader code rw) = Some code"
  by (simp add: WriteHeader_def)

text \<open>
  C6. The claim: a GET without \<^verbatim>\<open>id\<close> answers 200 with a JSON array of all records, the
  empty array when the store is empty. On the code: with the store emptied by a delete,
  the slice the handler encodes is still nil and the body is \<^verbatim>\<open>null\<close>; with one record
  stored, \<^verbatim>\<open>GetAll\<close> panics and there is no response.
\<close>

theorem GET_all_null_or_panic:
  "fst (handleRequest ItemType [] NewResponseWriter (request ''GET'' None []) emptied)
     = Return \<lparr>Header = [''Content-Type'' \<mapsto> ''application/json''], Status = Some 200,
               Written = [Json JNull]\<rparr>
   \<and> fst (handleRequest ItemType [1] NewResponseWriter (request ''GET'' None []) posted)
     = Panic ''reflect.Set: value is not assignable to the element type''"
  by (simp add: posted_eq emptied_eq request_def handleRequest_def GetAll_def
      reflect_defs http_defs)

text \<open>
  C7. The claim: every response with a JSON body has the header
  \<^verbatim>\<open>Content-Type: application/json\<close> set by the handler. On the code: the POST of the
  README is answered 201 with the record as JSON and a header map that is still empty;
  the branches for GET and PUT set the header, the branch for POST does not.
\<close>

theorem POST_without_Content_Type:
  \<open>fst (handleRequest ItemType [] NewResponseWriter
          (request ''POST'' None ''{"title":"Learn Go","done":false}'') started)
     = Return \<lparr>Header = Map.empty, Status = Some 201,
               Written = [Json (JObject \<lparr>ID = 1, Fields = (''Learn Go'', False)\<rparr>)]\<rparr>\<close>
  by (simp add: started_def NewStore_def request_def ItemType_def handleRequest_def
      Create_def reflect_defs http_defs)

text \<open>The sibling branch: a successful PUT answers with the header set.\<close>

lemma PUT_with_Content_Type:
  \<open>fst (handleRequest ItemType [1] NewResponseWriter
          (request ''PUT'' (Some ''1'') ''{"id":1,"title":"Learn Go","done":true}'') posted)
     = Return \<lparr>Header = [''Content-Type'' \<mapsto> ''application/json''], Status = Some 200,
               Written = [Json (JObject \<lparr>ID = 1, Fields = (''Learn Go'', True)\<rparr>)]\<rparr>\<close>
  by (simp add: posted_eq request_def ItemType_def handleRequest_def Update_def Atoi_1
      reflect_defs http_defs)

subsection \<open>Error responses\<close>

lemma new_model_kept:
  "new_model modelType w = (p, w1) \<Longrightarrow>
     p = PtrV Struct (length (mem w)) \<and> store w1 = store w
     \<and> mem w1 = mem w @ [StructV (Zero modelType)]"
  by (auto simp add: new_model_def reflect_New_def)

lemma json_Decode_fresh:
  "json_Decode modelType body (PtrV Struct (length m0)) w1 = (err, w2) \<Longrightarrow>
     store w2 = store w1 \<and> take (length m0) (mem w2) = take (length m0) (mem w1)"
  by (auto simp add: json_Decode_def split: val.splits prod.splits if_splits)

lemma Get_False: "Get i result w = (Return False, w') \<Longrightarrow> w' = w"
  by (auto simp add: Get_def split: option.splits outcome.splits)

lemma Update_False: "Update i item w = (False, w') \<Longrightarrow> w' = w"
  by (auto simp add: Update_def split: option.splits)

lemma Delete_False: "Delete i w = (False, w') \<Longrightarrow> w' = w"
  by (auto simp add: Delete_def split: option.splits)

lemma POST_error:
  assumes "Method r = ''POST''"
    and "handleRequest modelType keys rw r w = (Return rw', w')"
    and "Status rw = None" and "Status rw' \<noteq> Some 201"
  shows "store w' = store w \<and> take (length (mem w)) (mem w') = mem w"
proof -
  obtain p w1 where n: "new_model modelType w = (p, w1)"
    by (cases "new_model modelType w")
  obtain err w2 where d: "json_Decode modelType (Body r) p w1 = (err, w2)"
    by (cases "json_Decode modelType (Body r) p w1")
  from new_model_kept [OF n] have p: "p = PtrV Struct (length (mem w))"
    and s1: "store w1 = store w" and m1: "mem w1 = mem w @ [StructV (Zero modelType)]"
    by auto
  from d p json_Decode_fresh [of modelType "Body r" "mem w" w1 err w2]
  have s2: "store w2 = store w1"
    and m2: "take (length (mem w)) (mem w2) = take (length (mem w)) (mem w1)"
    by auto
  have "err"
  proof (rule ccontr)
    assume "\<not> err"
    with assms n d have "Status rw' = Some 201"
      by (auto simp add: handleRequest_def Status_json_Encode_201
          split: prod.splits outcome.splits)
    with assms show False
      by simp
  qed
  with assms n d have "w' = w2"
    by (simp add: handleRequest_def)
  with s1 s2 m1 m2 show ?thesis
    by simp
qed

lemma GET_error:
  assumes "Method r = ''GET''"
    and "handleRequest modelType keys rw r w = (Return rw', w')"
    and "Status rw = None" and "Status rw' \<noteq> Some 200"
  shows "store w' = store w \<and> take (length (mem w)) (mem w') = mem w"
proof (cases "Query_Get (Query r) ''id'' = []")
  case True
  with assms show ?thesis
    by (auto simp add: handleRequest_def Status_json_Encode_200
        split: prod.splits outcome.splits)
next
  case False
  show ?thesis
  proof (cases "Atoi (Query_Get (Query r) ''id'')")
    case None
    with False assms show ?thesis
      by (simp add: handleRequest_def)
  next
    case (Some i)
    obtain p w1 where n: "new_model modelType w = (p, w1)"
      by (cases "new_model modelType w")
    from new_model_kept [OF n] have s1: "store w1 = store w"
      and m1: "mem w1 = mem w @ [StructV (Zero modelType)]"
      by auto
    from assms False Some n have "Get i p w1 = (Return False, w')"
      by (auto simp add: handleRequest_def Status_json_Encode_200
          split: prod.splits outcome.splits if_splits)
    then have "w' = w1"
      by (rule Get_False)
    with s1 m1 show ?thesis
      by simp
  qed
qed

lemma PUT_error:
  assumes "Method r = ''PUT''"
    and "handleRequest modelType keys rw r w = (Return rw', w')"
    and "Status rw = None" and "Status rw' \<noteq> Some 200"
  shows "store w' = store w \<and> take (length (mem w)) (mem w') = mem w"
proof (cases "Atoi (Query_Get (Query r) ''id'')")
  case None
  with assms show ?thesis
    by (simp add: handleRequest_def)
next
  case (Some i)
  obtain p w1 where n: "new_model modelType w = (p, w1)"
    by (cases "new_model modelType w")
  obtain err w2 where d: "json_Decode modelType (Body r) p w1 = (err, w2)"
    by (cases "json_Decode modelType (Body r) p w1")
  from new_model_kept [OF n] have p: "p = PtrV Struct (length (mem w))"
    and s1: "store w1 = store w" and m1: "mem w1 = mem w @ [StructV (Zero modelType)]"
    by auto
  from d p json_Decode_fresh [of modelType "Body r" "mem w" w1 err w2]
  have s2: "store w2 = store w1"
    and m2: "take (length (mem w)) (mem w2) = take (length (mem w)) (mem w1)"
    by auto
  show ?thesis
  proof (cases err)
    case True
    with assms Some n d have "w' = w2"
      by (simp add: handleRequest_def)
    with s1 s2 m1 m2 show ?thesis
      by simp
  next
    case False
    with assms Some n d have "Update i p w2 = (False, w')"
      by (auto simp add: handleRequest_def Status_json_Encode_200
          split: prod.splits if_splits)
    then have "w' = w2"
      by (rule Update_False)
    with s1 s2 m1 m2 show ?thesis
      by simp
  qed
qed

lemma DELETE_error:
  assumes "Method r = ''DELETE''"
    and "handleRequest modelType keys rw r w = (Return rw', w')"
    and "Status rw = None" and "Status rw' \<noteq> Some 204"
  shows "store w' = store w \<and> take (length (mem w)) (mem w') = mem w"
proof (cases "Atoi (Query_Get (Query r) ''id'')")
  case None
  with assms show ?thesis
    by (simp add: handleRequest_def)
next
  case (Some i)
  with assms have "Delete i w = (False, w')"
    by (auto simp add: handleRequest_def Status_WriteHeader split: prod.splits if_splits)
  then have "w' = w"
    by (rule Delete_False)
  then show ?thesis
    by simp
qed

lemma other_method:
  assumes "Method r \<noteq> ''POST''" and "Method r \<noteq> ''GET''"
    and "Method r \<noteq> ''PUT''" and "Method r \<noteq> ''DELETE''"
  shows "handleRequest modelType keys rw r w =
     (Return (http_Error rw ''Unsupported method'' 405), w)"
  using assms by (simp add: handleRequest_def)

text \<open>
  Which requests are refused: an id that does not parse and a body that does not decode
  give 400, an id that parses and is not in the map gives 404.
\<close>

lemma unparseable_id_400:
  assumes "Method r = ''GET'' \<and> Query_Get (Query r) ''id'' \<noteq> [] \<or> Method r = ''PUT''
      \<or> Method r = ''DELETE''"
    and "Atoi (Query_Get (Query r) ''id'') = None"
  shows "handleRequest modelType keys rw r w = (Return (http_Error rw ''Invalid ID'' 400), w)"
  using assms by (auto simp add: handleRequest_def)

lemma undecodable_body_400:
  assumes "Method r = ''POST'' \<or> Method r = ''PUT'' \<and> Atoi (Query_Get (Query r) ''id'') \<noteq> None"
    and "fst (Decode modelType (Body r) (Zero modelType))"
  shows "fst (handleRequest modelType keys rw r w)
     = Return (http_Error rw ''Invalid request payload'' 400)"
  using assms
  by (auto simp add: handleRequest_def new_model_def reflect_New_def json_Decode_def
      split: prod.splits)

lemma absent_id_404:
  assumes "Method r = ''GET'' \<and> Query_Get (Query r) ''id'' \<noteq> [] \<or> Method r = ''DELETE''
      \<or> Method r = ''PUT'' \<and> \<not> fst (Decode modelType (Body r) (Zero modelType))"
    and "Atoi (Query_Get (Query r) ''id'') = Some i"
    and "data (store w) i = None"
  shows "fst (handleRequest modelType keys rw r w) = Return (http_Error rw ''Item not found'' 404)"
  using assms
  by (auto simp add: handleRequest_def new_model_def reflect_New_def json_Decode_def
      Get_def Update_def Delete_def split: prod.splits)

text \<open>
  C8. Whenever the handler, started on a response nothing has been written to, answers
  400, 404 or 405, the store is the one from before the request: the same map and the
  same counter, and every variable that existed in memory holds what it held (the
  handler may have allocated a fresh one for the decoded body or the result).
\<close>

theorem error_response_keeps_store:
  assumes "handleRequest modelType keys rw r w = (Return rw', w')"
    and "Status rw = None"
    and "Status rw' = Some 400 \<or> Status rw' = Some 404 \<or> Status rw' = Some 405"
  shows "store w' = store w \<and> take (length (mem w)) (mem w') = mem w"
proof -
  consider "Method r = ''POST''" | "Method r = ''GET''" | "Method r = ''PUT''"
    | "Method r = ''DELETE''"
    | "Method r \<noteq> ''POST''" "Method r \<noteq> ''GET''" "Method r \<noteq> ''PUT''"
      "Method r \<noteq> ''DELETE''"
    by blast
  then show ?thesis
  proof cases
    case 1
    with assms POST_error [of r modelType keys rw w rw' w'] show ?thesis
      by auto
  next
    case 2
    with assms GET_error [of r modelType keys rw w rw' w'] show ?thesis
      by auto
  next
    case 3
    with assms PUT_error [of r modelType keys rw w rw' w'] show ?thesis
      by auto
  next
    case 4
    with assms DELETE_error [of r modelType keys rw w rw' w'] show ?thesis
      by auto
  next
    case 5
    with assms other_method [of r modelType keys rw w] show ?thesis
      by simp
  qed
qed

text \<open>
  A PUT for the id 7 that no record has: 404, the map and the counter as before, and
  the record at address 0 untouched beside the fresh variable the body was decoded into.
\<close>

theorem error_response_keeps_store_witness:
  \<open>handleRequest ItemType [1] NewResponseWriter
      (request ''PUT'' (Some ''7'') ''{"id":1,"title":"Learn Go","done":true}'') posted
     = (Return \<lparr>Header = [''Content-Type'' \<mapsto> ''text/plain; charset=utf-8'',
                          ''X-Content-Type-Options'' \<mapsto> ''nosniff''],
                Status = Some 404, Written = [Text ''Item not found\<newline>'']\<rparr>,
        posted\<lparr>mem := mem posted @ [StructV \<lparr>ID = 1, Fields = (''Learn Go'', True)\<rparr>]\<rparr>)
   \<and> Status (NewResponseWriter :: (string \<times> bool) ResponseWriter) = None
   \<and> store (posted\<lparr>mem := mem posted @ [StructV \<lparr>ID = 1, Fields = (''Learn Go'', True)\<rparr>]\<rparr>)
       = store posted
   \<and> take (length (mem posted))
        (mem (posted\<lparr>mem := mem posted @ [StructV \<lparr>ID = 1, Fields = (''Learn Go'', True)\<rparr>]\<rparr>))
       = mem posted\<close>
proof -
  let ?rw = \<open>\<lparr>Header = [''Content-Type'' \<mapsto> ''text/plain; charset=utf-8'',
                          ''X-Content-Type-Options'' \<mapsto> ''nosniff''],
                Status = Some 404,
                Written = [Text ''Item not found\<newline>'' :: (string \<times> bool) chunk]\<rparr>\<close>
  let ?w = \<open>posted\<lparr>mem := mem posted @ [StructV \<lparr>ID = 1, Fields = (''Learn Go'', True)\<rparr>]\<rparr>\<close>
  have h: \<open>handleRequest ItemType [1] NewResponseWriter
      (request ''PUT'' (Some ''7'') ''{"id":1,"title":"Learn Go","done":true}'') posted
     = (Return ?rw, ?w)\<close>
    by (simp add: posted_eq request_def ItemType_def handleRequest_def Update_def Atoi_7
        reflect_defs http_defs)
  have s: "Status (NewResponseWriter :: (string \<times> bool) ResponseWriter) = None"
    by (simp add: NewResponseWriter_def)
  have e: "Status ?rw = Some 400 \<or> Status ?rw = Some 404 \<or> Status ?rw = Some 405"
    by simp
  from error_response_keeps_store [OF h s e] h s show ?thesis
    by simp
qed

subsection \<open>POST and the id of the body\<close>

text \<open>
  C9. A POST whose body decodes, into whatever record \<open>x\<close> and so with whatever \<open>ID\<close>
  the body supplied, is answered 201 with \<open>x\<close> carrying the counter of the store as its
  \<open>ID\<close>; that same record is what the store then holds under this ID, and the counter
  has moved on by one. The \<open>ID\<close> of \<open>x\<close> occurs nowhere in the result.
\<close>

theorem POST_assigns_store_ID:
  assumes "Method r = ''POST''"
    and "Decode modelType (Body r) (Zero modelType) = (False, x)"
    and "Status rw = None"
  shows "handleRequest modelType keys rw r w =
     (Return (rw\<lparr>Status := Some 201,
                 Written := Written rw @ [Json (JObject (x\<lparr>ID := nextID (store w)\<rparr>))]\<rparr>),
      \<lparr>store = \<lparr>data = (data (store w))(nextID (store w) \<mapsto> PtrV Struct (length (mem w))),
                 nextID = nextID (store w) + 1\<rparr>,
        mem = mem w @ [StructV (x\<lparr>ID := nextID (store w)\<rparr>)]\<rparr>)"
  using assms
  by (simp add: handleRequest_def Create_def reflect_defs http_defs Let_def)

text \<open>A body that asks for the id 42, sent to a new store: the record gets the id 1.\<close>

theorem POST_assigns_store_ID_witness:
  \<open>Method (request ''POST'' None ''{"id":42,"title":"Learn Go","done":false}'') = ''POST''
   \<and> Decode ItemType
        (Body (request ''POST'' None ''{"id":42,"title":"Learn Go","done":false}''))
        (Zero ItemType)
       = (False, \<lparr>ID = 42, Fields = (''Learn Go'', False)\<rparr>)
   \<and> Status (NewResponseWriter :: (string \<times> bool) ResponseWriter) = None
   \<and> handleRequest ItemType [] NewResponseWriter
        (request ''POST'' None ''{"id":42,"title":"Learn Go","done":false}'') started
       = (Return \<lparr>Header = Map.empty, Status = Some 201,
                  Written = [Json (JObject \<lparr>ID = 1, Fields = (''Learn Go'', False)\<rparr>)]\<rparr>,
          \<lparr>store = \<lparr>data = [1 \<mapsto> PtrV Struct 0], nextID = 2\<rparr>,
            mem = [StructV \<lparr>ID = 1, Fields = (''Learn Go'', False)\<rparr>]\<rparr>)\<close>
proof -
  let ?r = \<open>request ''POST'' None ''{"id":42,"title":"Learn Go","done":false}''\<close>
  have m: "Method ?r = ''POST''"
    by (simp add: request_def)
  have d: "Decode ItemType (Body ?r) (Zero ItemType)
      = (False, \<lparr>ID = 42, Fields = (''Learn Go'', False)\<rparr>)"
    by (simp add: request_def ItemType_def)
  have s: "Status (NewResponseWriter :: (string \<times> bool) ResponseWriter) = None"
    by (simp add: NewResponseWriter_def)
  from POST_assigns_store_ID [OF m d s, of "[]" started] m d s show ?thesis
    by (simp add: started_def NewStore_def NewResponseWriter_def)
qed

subsection \<open>Requests without an id\<close>

text \<open>
  C10. A PUT or DELETE whose query has no \<^verbatim>\<open>id\<close> is answered with the error
  "Invalid ID", status 400, and the state is returned as it was: no method of the
  Store has run and nothing was allocated, \<^verbatim>\<open>Atoi\<close> failing on the empty string. A GET
  whose query has no \<^verbatim>\<open>id\<close> is the call of \<^verbatim>\<open>GetAll\<close> on a fresh nil slice, answered from
  what it collected.
\<close>

theorem absent_id_is_invalid_for_PUT_and_DELETE:
  "((Method r = ''PUT'' \<or> Method r = ''DELETE'') \<and> Query r ''id'' = None \<and> Status rw = None \<longrightarrow>
      handleRequest modelType keys rw r w = (Return (http_Error rw ''Invalid ID'' 400), w)
      \<and> Status (http_Error rw ''Invalid ID'' 400) = Some 400
      \<and> Atoi (Query_Get (Query r) ''id'') = None)
   \<and> (Method r = ''GET'' \<and> Query r ''id'' = None \<longrightarrow>
      handleRequest modelType keys rw r w =
        (case GetAll keys (PtrV (SliceOf Struct) (length (mem w)))
                (w\<lparr>mem := mem w @ [NilSliceV Struct]\<rparr>) of
           (Panic e, w2) \<Rightarrow> (Panic e, w2)
         | (Return u, w2) \<Rightarrow>
             (Return (json_Encode (mem w2) (PtrV (SliceOf Struct) (length (mem w)))
                (Header_Set ''Content-Type'' ''application/json'' rw)), w2)))"
  by (auto simp add: handleRequest_def Atoi_empty Query_Get_def new_slice_def reflect_New_def
      Status_http_Error)

text \<open>
  The three requests without an id, sent after the POST of the README: PUT and DELETE
  are refused and the record stays; GET runs into \<^verbatim>\<open>GetAll\<close>.
\<close>

theorem absent_id_is_invalid_for_PUT_and_DELETE_witness:
  \<open>handleRequest ItemType [1] NewResponseWriter
      (request ''PUT'' None ''{"id":1,"title":"Learn Go","done":true}'') posted
     = (Return \<lparr>Header = [''Content-Type'' \<mapsto> ''text/plain; charset=utf-8'',
                          ''X-Content-Type-Options'' \<mapsto> ''nosniff''],
                Status = Some 400, Written = [Text ''Invalid ID\<newline>'']\<rparr>, posted)
   \<and> handleRequest ItemType [1] NewResponseWriter (request ''DELETE'' None []) posted
     = (Return \<lparr>Header = [''Content-Type'' \<mapsto> ''text/plain; charset=utf-8'',
                          ''X-Content-Type-Options'' \<mapsto> ''nosniff''],
                Status = Some 400, Written = [Text ''Invalid ID\<newline>'']\<rparr>, posted)
   \<and> handleRequest ItemType [] NewResponseWriter (request ''GET'' None []) emptied
     = (Return \<lparr>Header = [''Content-Type'' \<mapsto> ''application/json''], Status = Some 200,
                Written = [Json JNull]\<rparr>,
        emptied\<lparr>mem := mem emptied @ [NilSliceV Struct]\<rparr>)\<close>
proof -
  let ?put = \<open>request ''PUT'' None ''{"id":1,"title":"Learn Go","done":true}''\<close>
  let ?delete = \<open>request ''DELETE'' None []\<close>
  let ?get = \<open>request ''GET'' None []\<close>
  let ?rw = "NewResponseWriter :: (string \<times> bool) ResponseWriter"
  have e: "http_Error ?rw ''Invalid ID'' 400
      = \<lparr>Header = [''Content-Type'' \<mapsto> ''text/plain; charset=utf-8'',
                   ''X-Content-Type-Options'' \<mapsto> ''nosniff''],
         Status = Some 400, Written = [Text ''Invalid ID\<newline>'']\<rparr>"
    by (simp add: http_defs)
  have g: "GetAll [] (PtrV (SliceOf Struct) (length (mem emptied)))
        (emptied\<lparr>mem := mem emptied @ [NilSliceV Struct]\<rparr>)
      = (Return (), emptied\<lparr>mem := mem emptied @ [NilSliceV Struct]\<rparr>)"
    by (simp add: GetAll_def emptied_eq reflect_defs)
  have j: "json_Encode (mem emptied @ [NilSliceV Struct])
        (PtrV (SliceOf Struct) (length (mem emptied)))
        (Header_Set ''Content-Type'' ''application/json'' ?rw)
      = \<lparr>Header = [''Content-Type'' \<mapsto> ''application/json''], Status = Some 200,
         Written = [Json JNull]\<rparr>"
    by (simp add: emptied_eq http_defs)
  from absent_id_is_invalid_for_PUT_and_DELETE [of ?put ?rw ItemType "[1]" posted]
  have put: "handleRequest ItemType [1] ?rw ?put posted = (Return (http_Error ?rw ''Invalid ID'' 400), posted)"
    by (simp add: request_def NewResponseWriter_def)
  from absent_id_is_invalid_for_PUT_and_DELETE [of ?delete ?rw ItemType "[1]" posted]
  have delete: "handleRequest ItemType [1] ?rw ?delete posted = (Return (http_Error ?rw ''Invalid ID'' 400), posted)"
    by (simp add: request_def NewResponseWriter_def)
  from absent_id_is_invalid_for_PUT_and_DELETE [of ?get ?rw ItemType "[]" emptied]
  have get: "handleRequest ItemType [] ?rw ?get emptied =
      (Return \<lparr>Header = [''Content-Type'' \<mapsto> ''application/json''], Status = Some 200,
         Written = [Json JNull]\<rparr>, emptied\<lparr>mem := mem emptied @ [NilSliceV Struct]\<rparr>)"
    by (simp add: request_def g j)
  from put delete get e show ?thesis
    by simp
qed

end
